theory Spec2Isabelle
  imports Complex_Main
begin

section \<open>Structure generator (src/components/Building.tsx)\<close>

text \<open>
  JavaScript numbers are modelled as ideal reals: every claim below is about the
  structure of the computation (which bodies are emitted, which formula is applied,
  which timer is armed), not about rounding. A \<open>Vector3\<close> or a position triple is a
  triple of reals.
\<close>

type_synonym vec3 = "real \<times> real \<times> real"

subsection \<open>Dimensions\<close>

definition PILLAR_HEIGHT :: real where "PILLAR_HEIGHT = 3.5"
definition SLAB_HEIGHT :: real where "SLAB_HEIGHT = 0.4"
definition PILLAR_WIDTH_SIMPLE :: real where "PILLAR_WIDTH_SIMPLE = 0.5"
definition SLAB_WIDTH_SIMPLE :: real where "SLAB_WIDTH_SIMPLE = 5.0"
definition OFFSET_SIMPLE :: real where "OFFSET_SIMPLE = 2.2"
definition PILLAR_WIDTH_APARTMENT :: real where "PILLAR_WIDTH_APARTMENT = 0.7"
definition GRID_SIZE :: real where "GRID_SIZE = 4.0"
definition BANK_GRID :: real where "BANK_GRID = 4.0"
definition PILLAR_WIDTH_BANK :: real where "PILLAR_WIDTH_BANK = 0.6"
definition PILLAR_PHYSICS_WIDTH_BANK :: real where "PILLAR_PHYSICS_WIDTH_BANK = 0.8"
definition BEAM_HEIGHT_KINDA_BIG :: real where "BEAM_HEIGHT_KINDA_BIG = 0.4"
definition GAP :: real where "GAP = 0.05"
definition WALL_THICKNESS :: real where "WALL_THICKNESS = 0.4"
definition WINDOW_THICKNESS :: real where "WINDOW_THICKNESS = 0.15"
definition WALL_LENGTH_APT :: real where
  "WALL_LENGTH_APT = GRID_SIZE - PILLAR_WIDTH_APARTMENT - GAP"

subsection \<open>Geometry catalog, materials, rigid bodies\<close>

text \<open>The pre-created geometries and materials that a body can be given.\<close>

datatype geometry =
    pillarSimpleGeometry | pillarApartmentGeometry | pillarBankGeometry
  | slabSimpleGeometry | slabApartmentGeometry | slabBankGeometry
  | wallBankGeometryX | wallBankGeometryZ
  | windowBankGeometryX | windowBankGeometryZ
  | wallApartmentGeometryX | wallApartmentGeometryZ
  | debrisGeometry

datatype material =
    pillarMaterial | slabMaterial | pillarSimpleMaterial | slabSimpleMaterial
  | bankWallMaterial | debrisMaterial | glassMaterial | basementMaterial

text \<open>
  One rigid body: what \<open>PhysicsBox\<close> hands to \<open>useBox\<close> (mass, args, position, damping)
  and to the mesh (geometry, material, castShadow). \<open>ornaments\<close> counts the child
  meshes (steel ropes, braces) nested in the body: they are no bodies of their own.
\<close>

record body =
  position :: vec3
  args :: vec3
  mass :: real
  geometry :: geometry
  material :: material
  linearDamping :: real
  angularDamping :: real
  castShadow :: bool
  ornaments :: nat

text \<open>
  \<open>PhysicsBox\<close> with its defaults: \<open>mass = 1\<close>, \<open>linearDamping ?? 0.01\<close>,
  \<open>angularDamping ?? 0.01\<close>, \<open>castShadow = true\<close>. An omitted prop is \<open>None\<close>.
\<close>

definition PhysicsBox ::
  "vec3 \<Rightarrow> vec3 \<Rightarrow> real option \<Rightarrow> geometry \<Rightarrow> material \<Rightarrow> real option \<Rightarrow> real option
     \<Rightarrow> bool option \<Rightarrow> nat \<Rightarrow> body" where
  "PhysicsBox pos ar m g mat ld ad cs ch =
     \<lparr> position = pos, args = ar,
       mass = (case m of None \<Rightarrow> 1 | Some v \<Rightarrow> v),
       geometry = g, material = mat,
       linearDamping = (case ld of None \<Rightarrow> 0.01 | Some v \<Rightarrow> v),
       angularDamping = (case ad of None \<Rightarrow> 0.01 | Some v \<Rightarrow> v),
       castShadow = (case cs of None \<Rightarrow> True | Some v \<Rightarrow> v),
       ornaments = ch \<rparr>"

datatype BuildingType = simple | apartment | bank

subsection \<open>Stories\<close>

text \<open>
  The nested loop \<open>for (x = 0; x < nx; x++) for (z = 0; z < nz; z++) elements.push(f x z)\<close>:
  the bodies pushed, in the order of the pushes.
\<close>

definition grid :: "nat \<Rightarrow> nat \<Rightarrow> (nat \<Rightarrow> nat \<Rightarrow> 'a) \<Rightarrow> 'a list" where
  "grid nx nz f = concat (map (\<lambda>x. map (\<lambda>z. f x z) [0..<nz]) [0..<nx])"

definition StorySimple :: "nat \<Rightarrow> real \<Rightarrow> body list" where
  "StorySimple level yPos =
    (let pillarY = yPos + PILLAR_HEIGHT / 2;
         slabY = yPos + PILLAR_HEIGHT + SLAB_HEIGHT / 2;
         ofs = OFFSET_SIMPLE;
         pillarMass = 0.5;
         slabMass = 1.0;
         pillar = (\<lambda>px pz. PhysicsBox (px, pillarY, pz)
                     (PILLAR_WIDTH_SIMPLE, PILLAR_HEIGHT, PILLAR_WIDTH_SIMPLE)
                     (Some pillarMass) pillarSimpleGeometry pillarSimpleMaterial
                     None None None 0)
     in [pillar ofs ofs, pillar (- ofs) ofs, pillar ofs (- ofs), pillar (- ofs) (- ofs),
         PhysicsBox (0, slabY, 0) (SLAB_WIDTH_SIMPLE, SLAB_HEIGHT, SLAB_WIDTH_SIMPLE)
           (Some slabMass) slabSimpleGeometry slabSimpleMaterial None None None 0])"

definition StoryApartment :: "nat \<Rightarrow> real \<Rightarrow> nat \<Rightarrow> nat \<Rightarrow> body list" where
  "StoryApartment level yPos roomsX roomsZ =
    (let isBasement = (level = 0);
         pillarY = yPos + PILLAR_HEIGHT / 2;
         totalWidth = real roomsX * GRID_SIZE;
         totalDepth = real roomsZ * GRID_SIZE;
         startX = - totalWidth / 2;
         startZ = - totalDepth / 2;
         pillarMass = (if isBasement then 50.0 else 20.0);
         slabMass = (if isBasement then 50.0 else 20.0);
         wallMass = (if isBasement then 50.0 else 20.0);
         damping = 0.05;
         currentPillarMat = (if isBasement then basementMaterial else pillarMaterial);
         currentWallMat = (if isBasement then basementMaterial else bankWallMaterial);
         pillars = grid (roomsX + 1) (roomsZ + 1) (\<lambda>x z.
           PhysicsBox (startX + real x * GRID_SIZE, pillarY, startZ + real z * GRID_SIZE)
             (PILLAR_WIDTH_APARTMENT, PILLAR_HEIGHT, PILLAR_WIDTH_APARTMENT)
             (Some pillarMass) pillarApartmentGeometry currentPillarMat
             (Some damping) (Some damping) None 0);
         wallsX = grid roomsX (roomsZ + 1) (\<lambda>x z.
           PhysicsBox (startX + real x * GRID_SIZE + GRID_SIZE / 2, pillarY,
                       startZ + real z * GRID_SIZE)
             (WALL_LENGTH_APT, PILLAR_HEIGHT, WALL_THICKNESS)
             (Some wallMass) wallApartmentGeometryX currentWallMat
             (Some damping) (Some damping) None 0);
         wallsZ = grid (roomsX + 1) roomsZ (\<lambda>x z.
           PhysicsBox (startX + real x * GRID_SIZE, pillarY,
                       startZ + real z * GRID_SIZE + GRID_SIZE / 2)
             (WALL_THICKNESS, PILLAR_HEIGHT, WALL_LENGTH_APT)
             (Some wallMass) wallApartmentGeometryZ currentWallMat
             (Some damping) (Some damping) None 0);
         slabs = grid roomsX roomsZ (\<lambda>x z.
           (let currentSlabHeight = BEAM_HEIGHT_KINDA_BIG;
                slabY = yPos + PILLAR_HEIGHT + currentSlabHeight / 2
            in PhysicsBox (startX + real x * GRID_SIZE + GRID_SIZE / 2, slabY,
                           startZ + real z * GRID_SIZE + GRID_SIZE / 2)
                 (GRID_SIZE - GAP, currentSlabHeight, GRID_SIZE - GAP)
                 (Some slabMass) slabApartmentGeometry
                 (if isBasement then basementMaterial else slabMaterial)
                 (Some damping) (Some damping) None 0));
         debris = (if \<not> isBasement then grid roomsX roomsZ (\<lambda>x z.
           PhysicsBox (startX + real x * GRID_SIZE + GRID_SIZE / 2, yPos + 0.5,
                       startZ + real z * GRID_SIZE + GRID_SIZE / 2)
             (0.5, 0.5, 0.5) (Some 5.0) debrisGeometry debrisMaterial
             (Some 0.1) (Some 0.1) (Some False) 0) else [])
     in pillars @ wallsX @ wallsZ @ slabs @ debris)"

definition StoryBank :: "nat \<Rightarrow> real \<Rightarrow> body list" where
  "StoryBank level yPos =
    (let isBasement = (level = 0);
         GRID = BANK_GRID;
         ROOMS_X = (4::nat);
         ROOMS_Z = (4::nat);
         totalWidth = real ROOMS_X * GRID;
         totalDepth = real ROOMS_Z * GRID;
         startX = - totalWidth / 2;
         startZ = - totalDepth / 2;
         pillarY = yPos + PILLAR_HEIGHT / 2;
         slabY = yPos + PILLAR_HEIGHT + BEAM_HEIGHT_KINDA_BIG / 2;
         mass = (if isBasement then 50.0 else 20.0);
         damping = 0.05;
         WALL_LENGTH_BANK_PHYSICS = BANK_GRID - PILLAR_PHYSICS_WIDTH_BANK - GAP;
         pillars = grid (ROOMS_X + 1) (ROOMS_Z + 1) (\<lambda>x z.
           PhysicsBox (startX + real x * GRID, pillarY, startZ + real z * GRID)
             (PILLAR_PHYSICS_WIDTH_BANK, PILLAR_HEIGHT, PILLAR_PHYSICS_WIDTH_BANK)
             (Some mass) pillarBankGeometry
             (if isBasement then basementMaterial else pillarMaterial)
             (Some damping) (Some damping) None
             (4 + (if isBasement \<and> x < ROOMS_X then 2 else 0)
                + (if isBasement \<and> z < ROOMS_Z then 2 else 0)));
         wallsX = grid ROOMS_X (ROOMS_Z + 1) (\<lambda>x z.
           (let wx = startX + real x * GRID + GRID / 2;
                wz = startZ + real z * GRID;
                isOutside = (z = 0 \<or> z = ROOMS_Z)
            in if isOutside
               then PhysicsBox (wx, pillarY, wz)
                      (WALL_LENGTH_BANK_PHYSICS, PILLAR_HEIGHT, WINDOW_THICKNESS)
                      (Some 5.0) windowBankGeometryX glassMaterial
                      (Some 0.1) (Some 0.1) None 0
               else PhysicsBox (wx, pillarY, wz)
                      (WALL_LENGTH_BANK_PHYSICS, PILLAR_HEIGHT, WALL_THICKNESS)
                      (Some 20.0) wallBankGeometryX bankWallMaterial
                      (Some damping) (Some damping) None 0));
         wallsZ = grid (ROOMS_X + 1) ROOMS_Z (\<lambda>x z.
           (let wx = startX + real x * GRID;
                wz = startZ + real z * GRID + GRID / 2;
                isOutside = (x = 0 \<or> x = ROOMS_X)
            in if isOutside
               then PhysicsBox (wx, pillarY, wz)
                      (WINDOW_THICKNESS, PILLAR_HEIGHT, WALL_LENGTH_BANK_PHYSICS)
                      (Some 5.0) windowBankGeometryZ glassMaterial
                      (Some 0.1) (Some 0.1) None 0
               else PhysicsBox (wx, pillarY, wz)
                      (WALL_THICKNESS, PILLAR_HEIGHT, WALL_LENGTH_BANK_PHYSICS)
                      (Some 20.0) wallBankGeometryZ bankWallMaterial
                      (Some damping) (Some damping) None 0));
         slabs = grid ROOMS_X ROOMS_Z (\<lambda>x z.
           PhysicsBox (startX + real x * GRID + GRID / 2, slabY,
                       startZ + real z * GRID + GRID / 2)
             (GRID - GAP, BEAM_HEIGHT_KINDA_BIG, GRID - GAP)
             (Some mass) slabBankGeometry
             (if isBasement then basementMaterial else slabMaterial)
             (Some damping) (Some damping) None 7)
     in pillars @ wallsX @ wallsZ @ slabs)"

subsection \<open>The building\<close>

text \<open>\<open>getGridDimensions\<close>: the apartment's room grid is fixed.\<close>

definition getGridDimensions :: "nat \<times> nat" where
  "getGridDimensions = (3, 3)"

text \<open>
  \<open>getFloorY\<close>: the loop \<open>for (i = 0; i < levelIndex; i++) y += ...\<close> as recursion on
  the number of iterations.
\<close>

fun getFloorY :: "BuildingType \<Rightarrow> nat \<Rightarrow> real" where
  "getFloorY ty 0 = 0"
| "getFloorY ty (Suc i) =
     getFloorY ty i +
       (if ty = bank \<or> ty = apartment then PILLAR_HEIGHT + BEAM_HEIGHT_KINDA_BIG
        else PILLAR_HEIGHT + SLAB_HEIGHT)"

definition totalLevels :: "BuildingType \<Rightarrow> nat \<Rightarrow> nat" where
  "totalLevels ty stories = (if ty = bank \<or> ty = apartment then stories + 1 else stories)"

text \<open>The story rendered for level index \<open>i\<close>: the body of the \<open>map\<close> callback.\<close>

definition story :: "BuildingType \<Rightarrow> nat \<Rightarrow> body list" where
  "story ty i =
    (let yPos = getFloorY ty i
     in if ty = bank then StoryBank i yPos
        else if ty = simple then StorySimple i yPos
        else StoryApartment i yPos (fst getGridDimensions) (snd getGridDimensions))"

text \<open>
  \<open>Array.from({ length: totalLevels }).map(...)\<close>: one story per level index, kept
  apart in \<open>levels\<close>; \<open>Building\<close> is the flat sequence of the bodies spawned. The story
  count is a natural number: the interface passes 4, 5, 10 or 12.
\<close>

definition levels :: "BuildingType \<Rightarrow> nat \<Rightarrow> body list list" where
  "levels ty stories = map (story ty) [0..<totalLevels ty stories]"

definition Building :: "nat \<Rightarrow> BuildingType \<Rightarrow> body list" where
  "Building stories ty = concat (levels ty stories)"

text \<open>Which bodies are pillars, walls (solid or window), slabs, debris: by geometry.\<close>

definition isPillar :: "body \<Rightarrow> bool" where
  "isPillar b = (geometry b = pillarSimpleGeometry \<or> geometry b = pillarApartmentGeometry
                 \<or> geometry b = pillarBankGeometry)"

definition isSlab :: "body \<Rightarrow> bool" where
  "isSlab b = (geometry b = slabSimpleGeometry \<or> geometry b = slabApartmentGeometry
               \<or> geometry b = slabBankGeometry)"

definition isWindow :: "body \<Rightarrow> bool" where
  "isWindow b = (geometry b = windowBankGeometryX \<or> geometry b = windowBankGeometryZ)"

definition isWall :: "body \<Rightarrow> bool" where
  "isWall b = (geometry b = wallBankGeometryX \<or> geometry b = wallBankGeometryZ
               \<or> geometry b = wallApartmentGeometryX \<or> geometry b = wallApartmentGeometryZ)"

definition isDebris :: "body \<Rightarrow> bool" where
  "isDebris b = (geometry b = debrisGeometry)"

section \<open>Excitation controller (src/App.tsx)\<close>

record BuildingConfig =
  stories :: nat
  type :: BuildingType

text \<open>
  What a pending one-shot timer does when it fires: the two closures handed to
  \<open>setTimeout\<close>. \<open>StartSWave pwr sWaveDuration\<close> is
  \<open>() => { setQuakePower(power); playEarthquakeSound(sWaveDuration, power) }\<close>,
  \<open>EndQuake\<close> is \<open>() => { setIsQuaking(false) }\<close>.
\<close>

datatype timer_callback = StartSWave real real | EndQuake

text \<open>
  The audio context that is playing, kept as the duration (ms) and the peak volume of
  its gain envelope; the noise samples and the filter frequency are not modelled, nor
  is an exception while the buffer is built, which the source catches and logs.
\<close>

record sound =
  soundDuration :: real
  soundVolume :: real

text \<open>
  The state of the \<open>App\<close> component (its \<open>useState\<close> cells and \<open>useRef\<close> cells), and
  the part of the host environment its handlers act on: whether an \<open>AudioContext\<close> class
  exists, the pending timers (id, delay in ms, callback) in the order they were armed,
  and the id the next \<open>setTimeout\<close> returns. A ref holding \<open>null\<close> is \<open>None\<close>.
\<close>

record app_state =
  config :: BuildingConfig
  resetKey :: nat
  isQuaking :: bool
  quakePower :: real
  isPaused :: bool
  customDuration :: real
  timeoutRef :: "nat option"
  pWaveTimeoutRef :: "nat option"
  audioContextRef :: "sound option"
  audioAvailable :: bool
  timers :: "(nat \<times> real \<times> timer_callback) list"
  nextTimerId :: nat

definition setTimeout :: "timer_callback \<Rightarrow> real \<Rightarrow> app_state \<Rightarrow> nat \<times> app_state" where
  "setTimeout cb delay s =
     (nextTimerId s,
      s\<lparr>timers := timers s @ [(nextTimerId s, delay, cb)],
        nextTimerId := nextTimerId s + 1\<rparr>)"

definition clearTimeout :: "nat \<Rightarrow> app_state \<Rightarrow> app_state" where
  "clearTimeout i s = s\<lparr>timers := filter (\<lambda>t. fst t \<noteq> i) (timers s)\<rparr>"

text \<open>
  \<open>if (ref.current) clearTimeout(ref.current)\<close>: \<open>null\<close> and the number 0 are falsy.
\<close>

definition clearIfSet :: "nat option \<Rightarrow> app_state \<Rightarrow> app_state" where
  "clearIfSet r s =
     (case r of None \<Rightarrow> s | Some i \<Rightarrow> if i \<noteq> 0 then clearTimeout i s else s)"

definition stopEarthquakeSound :: "app_state \<Rightarrow> app_state" where
  "stopEarthquakeSound s = s\<lparr>audioContextRef := None\<rparr>"

definition playEarthquakeSound :: "real \<Rightarrow> real \<Rightarrow> app_state \<Rightarrow> app_state" where
  "playEarthquakeSound duration pwr s =
     (let s1 = stopEarthquakeSound s
      in if \<not> audioAvailable s1 then s1
         else s1\<lparr>audioContextRef :=
                   Some \<lparr>soundDuration = duration,
                         soundVolume = min (0.15 * pwr ^ 2) 0.8\<rparr>\<rparr>)"

definition handleRebuild :: "app_state \<Rightarrow> app_state" where
  "handleRebuild s =
     (let s1 = stopEarthquakeSound s;
          s2 = s1\<lparr>resetKey := resetKey s1 + 1\<rparr>;
          s3 = s2\<lparr>isQuaking := False\<rparr>;
          s4 = s3\<lparr>isPaused := False\<rparr>;
          s5 = clearIfSet (timeoutRef s4) s4
      in clearIfSet (pWaveTimeoutRef s5) s5)"

text \<open>
  \<open>handleConfigChange\<close>, followed by the effect that resets the custom duration when
  \<open>config.type\<close> has changed.
\<close>

definition handleConfigChange :: "nat \<Rightarrow> BuildingType \<Rightarrow> app_state \<Rightarrow> app_state" where
  "handleConfigChange n ty s =
     (let s1 = handleRebuild (s\<lparr>config := \<lparr>stories = n, type = ty\<rparr>\<rparr>)
      in if ty \<noteq> type (config s)
         then s1\<lparr>customDuration := (if ty = bank then 30 else 15)\<rparr>
         else s1)"

text \<open>
  The split of the duration in the two-phase branch of \<open>handleEarthquake\<close>: its local
  constants \<open>pWaveRatio\<close>, \<open>pWaveDuration\<close>, \<open>sWaveDuration\<close> and \<open>pWavePower\<close>. \<open>rnd\<close>
  is what \<open>Math.random()\<close> returns, a number in \<open>[0, 1)\<close>.
\<close>

definition pWaveRatio :: "real \<Rightarrow> real" where
  "pWaveRatio rnd = 0.30 + rnd * 0.10"

definition pWaveDuration :: "real \<Rightarrow> real \<Rightarrow> real" where
  "pWaveDuration duration rnd = duration * pWaveRatio rnd"

definition sWaveDuration :: "real \<Rightarrow> real \<Rightarrow> real" where
  "sWaveDuration duration rnd = duration - pWaveDuration duration rnd"

definition pWavePower :: real where
  "pWavePower = 0.5"

text \<open>
  \<open>handleEarthquake(duration, power)\<close>, with \<open>pwr\<close> for the source's \<open>power\<close>; every
  caller passes it.
\<close>

definition handleEarthquake :: "real \<Rightarrow> real \<Rightarrow> real \<Rightarrow> app_state \<Rightarrow> app_state" where
  "handleEarthquake duration pwr rnd s =
     (let s1 = clearIfSet (timeoutRef s) s;
          s2 = clearIfSet (pWaveTimeoutRef s1) s1;
          s3 = s2\<lparr>isQuaking := True\<rparr>
      in if type (config s3) = bank \<and> pwr \<ge> 1.4 then
           (let s4 = s3\<lparr>quakePower := pWavePower\<rparr>;
                s5 = playEarthquakeSound (pWaveDuration duration rnd + 500) pWavePower s4;
                (pid, s6) = setTimeout (StartSWave pwr (sWaveDuration duration rnd))
                              (pWaveDuration duration rnd) s5;
                s7 = s6\<lparr>pWaveTimeoutRef := Some pid\<rparr>;
                (eid, s8) = setTimeout EndQuake duration s7
            in s8\<lparr>timeoutRef := Some eid\<rparr>)
         else
           (let s4 = s3\<lparr>quakePower := pwr\<rparr>;
                s5 = playEarthquakeSound duration pwr s4;
                (eid, s6) = setTimeout EndQuake duration s5
            in s6\<lparr>timeoutRef := Some eid\<rparr>))"

text \<open>
  A quake button: \<open><button onClick={() => handleEarthquake(duration, power)}
  disabled={isQuaking}>\<close>. A disabled button dispatches no click.
\<close>

definition quakeButton :: "real \<Rightarrow> real \<Rightarrow> real \<Rightarrow> app_state \<Rightarrow> app_state" where
  "quakeButton duration pwr rnd s =
     (if isQuaking s then s else handleEarthquake duration pwr rnd s)"

text \<open>A pending timer fires: it leaves the pending list and its callback runs.\<close>

fun runCallback :: "timer_callback \<Rightarrow> app_state \<Rightarrow> app_state" where
  "runCallback (StartSWave pwr dur) s =
     playEarthquakeSound dur pwr (s\<lparr>quakePower := pwr\<rparr>)"
| "runCallback EndQuake s = s\<lparr>isQuaking := False\<rparr>"

definition fireTimer :: "nat \<Rightarrow> app_state \<Rightarrow> app_state" where
  "fireTimer i s =
     (case find (\<lambda>t. fst t = i) (timers s) of
        None \<Rightarrow> s
      | Some (_, _, cb) \<Rightarrow> runCallback cb (clearTimeout i s))"

text \<open>The component's first render; timer ids of the host start at 1.\<close>

definition initialApp :: "bool \<Rightarrow> app_state" where
  "initialApp audio =
     \<lparr> config = \<lparr>stories = 4, type = simple\<rparr>, resetKey = 0, isQuaking = False,
       quakePower = 1, isPaused = False, customDuration = 15,
       timeoutRef = None, pWaveTimeoutRef = None, audioContextRef = None,
       audioAvailable = audio, timers = [], nextTimerId = 1 \<rparr>"

section \<open>The floor (Floor of src/components/Scene.tsx)\<close>

text \<open>The kinematic floor body: the position last commanded, and \<open>timeRef\<close>.\<close>

record floor_state =
  floorPosition :: vec3
  timeRef :: real

text \<open>A freshly mounted \<open>Floor\<close>: \<open>useBox\<close> at \<open>[0, -1.1, 0]\<close>, \<open>useRef(0)\<close>.\<close>

definition floorMount :: floor_state where
  "floorMount = \<lparr> floorPosition = (0, - 1.1, 0), timeRef = 0 \<rparr>"

text \<open>
  The amplitudes and noise magnitudes of the \<open>useFrame\<close> callback of \<open>Floor\<close>, as
  functions of the prop \<open>quakePower\<close> (here \<open>pwr\<close>): its local constants
  \<open>intensityX\<close>, \<open>intensityY\<close>, \<open>noiseFactor\<close>, and the factor \<open>0.3 * quakePower\<close> of the vertical noise.
\<close>

definition intensityX :: "real \<Rightarrow> real" where
  "intensityX pwr = 1.0 * pwr"

definition intensityY :: "real \<Rightarrow> real" where
  "intensityY pwr = 0.4 * pwr"

definition noiseFactor :: "real \<Rightarrow> real" where
  "noiseFactor pwr = 0.6 * pwr"

definition noiseFactorY :: "real \<Rightarrow> real" where
  "noiseFactorY pwr = 0.3 * pwr"

text \<open>
  The \<open>useFrame\<close> callback of \<open>Floor\<close>. \<open>r1\<close>, \<open>r2\<close>, \<open>r3\<close> are the three values of
  \<open>Math.random()\<close>, in the order of the calls (for x, z, y).
\<close>

definition floorFrame ::
  "bool \<Rightarrow> real \<Rightarrow> real \<Rightarrow> real \<Rightarrow> real \<Rightarrow> real \<Rightarrow> floor_state \<Rightarrow> floor_state" where
  "floorFrame quaking pwr delta r1 r2 r3 fs =
     (if quaking then
        (let speed = 25;
             t = timeRef fs + delta * speed;
             x = sin t * intensityX pwr + (r1 - 0.5) * noiseFactor pwr;
             z = cos (t * 0.9) * intensityX pwr + (r2 - 0.5) * noiseFactor pwr;
             y = - 1.1 + sin (t * 1.5) * intensityY pwr
                   + (r3 - 0.5) * noiseFactorY pwr
         in \<lparr> floorPosition = (x, y, z), timeRef = t \<rparr>)
      else fs\<lparr>floorPosition := (0, - 1.1, 0)\<rparr>)"

section \<open>The application as a transition system\<close>

text \<open>
  The \<open>App\<close> state, the key under which the \<open>Scene\<close> is mounted, and the floor of that
  scene. \<open>Scene\<close> is rendered with \<open>key={resetKey}\<close>: when the key changes, the old scene
  is unmounted and a fresh one is mounted.
\<close>

record world =
  app :: app_state
  sceneKey :: nat
  floor :: floor_state

definition render :: "world \<Rightarrow> world" where
  "render w =
     (if resetKey (app w) \<noteq> sceneKey w
      then w\<lparr>sceneKey := resetKey (app w), floor := floorMount\<rparr>
      else w)"

text \<open>
  What can happen: a quake button is pressed, \<open>handleEarthquake\<close> is called from
  anywhere (\<open>Trigger\<close>), the rebuild, a building, or the pause button is pressed, the
  duration slider moves, a pending timer fires, a frame is rendered. Every handler is
  followed by a render. Timers may fire in any order and at any moment: real time is
  not modelled.
\<close>

datatype event =
    QuakeButton real real real
  | Trigger real real real
  | RebuildButton
  | ConfigButton nat BuildingType
  | PauseButton
  | DurationSlider real
  | TimerFires nat
  | Frame real real real real

fun step :: "world \<Rightarrow> event \<Rightarrow> world" where
  "step w (QuakeButton d p r) = render (w\<lparr>app := quakeButton d p r (app w)\<rparr>)"
| "step w (Trigger d p r) = render (w\<lparr>app := handleEarthquake d p r (app w)\<rparr>)"
| "step w RebuildButton = render (w\<lparr>app := handleRebuild (app w)\<rparr>)"
| "step w (ConfigButton n ty) = render (w\<lparr>app := handleConfigChange n ty (app w)\<rparr>)"
| "step w PauseButton = render (w\<lparr>app := (app w)\<lparr>isPaused := \<not> isPaused (app w)\<rparr>\<rparr>)"
| "step w (DurationSlider v) = render (w\<lparr>app := (app w)\<lparr>customDuration := v\<rparr>\<rparr>)"
| "step w (TimerFires i) = render (w\<lparr>app := fireTimer i (app w)\<rparr>)"
| "step w (Frame delta r1 r2 r3) =
     w\<lparr>floor := floorFrame (isQuaking (app w)) (quakePower (app w)) delta r1 r2 r3 (floor w)\<rparr>"

definition initialWorld :: "bool \<Rightarrow> world" where
  "initialWorld audio = \<lparr> app = initialApp audio, sceneKey = 0, floor = floorMount \<rparr>"

definition run :: "bool \<Rightarrow> event list \<Rightarrow> world" where
  "run audio es = foldl step (initialWorld audio) es"

section \<open>Drag controller (DragProvider, Draggable, CursorConstraint, DragLine)\<close>

text \<open>
  three.js vectors are mutable objects: \<open>copy\<close>, \<open>add\<close>, \<open>applyQuaternion\<close> and
  \<open>worldToLocal\<close> overwrite the vector they are called on. The \<open>Vector3\<close> objects of a
  drag live in a store, by address; \<open>new Vector3()\<close> and \<open>clone()\<close> take the next free
  address. The geometry of three.js itself is outside the repository: the rotation by a
  quaternion (\<open>Q\<close>) and the world-to-local transform of an object (\<open>W\<close>) are parameters.
\<close>

type_synonym quat = "real \<times> real \<times> real \<times> real"

record pose =
  posePosition :: vec3
  poseQuaternion :: quat

definition vadd :: "vec3 \<Rightarrow> vec3 \<Rightarrow> vec3" where
  "vadd a b = (case a of (ax, ay, az) \<Rightarrow> case b of (bx, by, bz) \<Rightarrow> (ax + bx, ay + by, az + bz))"

definition smul :: "vec3 \<Rightarrow> real \<Rightarrow> vec3" where
  "smul a k = (case a of (ax, ay, az) \<Rightarrow> (ax * k, ay * k, az * k))"

text \<open>
  \<open>dragState\<close> is the state cell of \<open>DragProvider\<close>: \<open>null\<close>, or the grabbed object and
  the address of the pivot vector. While it is set, \<open>CursorConstraint\<close> and \<open>DragLine\<close>
  are mounted: \<open>lineTemps\<close> are the addresses of \<open>startPos\<close>, \<open>endPos\<close>, \<open>worldPivot\<close>,
  \<open>initialDistance\<close> is the ref of that name, \<open>cursor\<close> the position last commanded
  to the cursor body, \<open>line\<close> the two end points of the feedback line.
\<close>

record drag_world =
  heap :: "nat \<Rightarrow> vec3"
  nextAddr :: nat
  dragState :: "(nat \<times> nat) option"
  orbitEnabled :: bool
  lineTemps :: "nat \<times> nat \<times> nat"
  initialDistance :: real
  cursor :: vec3
  line :: "(vec3 \<times> vec3) option"

definition newVector3 :: "vec3 \<Rightarrow> drag_world \<Rightarrow> nat \<times> drag_world" where
  "newVector3 v w =
     (nextAddr w, w\<lparr>heap := (heap w)(nextAddr w := v), nextAddr := nextAddr w + 1\<rparr>)"

text \<open>\<open>startDrag\<close> and \<open>endDrag\<close> of \<open>DragProvider\<close>.\<close>

definition startDrag :: "nat \<Rightarrow> nat \<Rightarrow> drag_world \<Rightarrow> drag_world" where
  "startDrag ref hitPoint w = w\<lparr>dragState := Some (ref, hitPoint), orbitEnabled := False\<rparr>"

definition endDrag :: "drag_world \<Rightarrow> drag_world" where
  "endDrag w = w\<lparr>dragState := None, orbitEnabled := True\<rparr>"

text \<open>
  The render that follows \<open>startDrag\<close>: \<open>DragLine\<close> creates its three temporary vectors,
  and the mount effect of \<open>CursorConstraint\<close> stores the distance from the camera to the
  object (\<open>camDist\<close>, what \<open>distanceTo\<close> returns).
\<close>

definition mountCursorConstraint :: "real \<Rightarrow> drag_world \<Rightarrow> drag_world" where
  "mountCursorConstraint camDist w =
     (let (startPos, w1) = newVector3 (0, 0, 0) w;
          (endPos, w2) = newVector3 (0, 0, 0) w1;
          (worldPivot, w3) = newVector3 (0, 0, 0) w2
      in w3\<lparr>lineTemps := (startPos, endPos, worldPivot), initialDistance := camDist\<rparr>)"

text \<open>
  \<open>onPointerDown\<close> of \<open>Draggable\<close>, on the object \<open>obj\<close> (the event's \<open>e.object\<close>) whose
  pose is \<open>p\<close>, hit at the world point \<open>point\<close> (\<open>e.point\<close>): the point is cloned, the clone is transformed in place to the
  object's local frame, and handed to \<open>startDrag\<close>.
\<close>

definition onPointerDown ::
  "(pose \<Rightarrow> vec3 \<Rightarrow> vec3) \<Rightarrow> nat \<Rightarrow> pose \<Rightarrow> vec3 \<Rightarrow> real \<Rightarrow> drag_world \<Rightarrow> drag_world" where
  "onPointerDown W obj p point camDist w =
     (let (worldPoint, w1) = newVector3 point w;
          w2 = w1\<lparr>heap := (heap w1)(worldPoint := W p (heap w1 worldPoint))\<rparr>;
          localPoint = worldPoint
      in mountCursorConstraint camDist (startDrag obj localPoint w2))"

text \<open>The window's \<open>pointerup\<close> listener.\<close>

definition onPointerUp :: "drag_world \<Rightarrow> drag_world" where
  "onPointerUp w = endDrag w"

text \<open>
  What one frame reads from the engine: the camera position, the unit direction of the
  pointer ray, the position of the cursor mesh, and the pose of the grabbed object
  (\<open>None\<close> when its ref is empty).
\<close>

record frame_input =
  cameraPosition :: vec3
  rayDirection :: vec3
  cursorMesh :: vec3
  target :: "pose option"

text \<open>The \<open>useFrame\<close> callback of \<open>CursorConstraint\<close>.\<close>

definition cursorFrame :: "frame_input \<Rightarrow> drag_world \<Rightarrow> drag_world" where
  "cursorFrame f w =
     (let distance = (if initialDistance w \<noteq> 0 then initialDistance w else 10);
          pos = vadd (cameraPosition f) (smul (rayDirection f) distance)
      in w\<lparr>cursor := pos\<rparr>)"

text \<open>
  The \<open>useFrame\<close> callback of \<open>DragLine\<close>, with \<open>localPivot\<close> the address in \<open>dragState\<close>:
  \<open>startPos.copy(...)\<close>, then
  \<open>worldPivot.copy(localPivot).applyQuaternion(obj.quaternion).add(obj.position)\<close>.
\<close>

definition lineFrame ::
  "(quat \<Rightarrow> vec3 \<Rightarrow> vec3) \<Rightarrow> frame_input \<Rightarrow> nat \<Rightarrow> drag_world \<Rightarrow> drag_world" where
  "lineFrame Q f localPivot w =
     (case target f of
        None \<Rightarrow> w
      | Some obj \<Rightarrow>
         (let (startPos, endPos, worldPivot) = lineTemps w;
              h1 = (heap w)(startPos := cursorMesh f);
              h2 = h1(worldPivot := h1 localPivot);
              h3 = h2(worldPivot := Q (poseQuaternion obj) (h2 worldPivot));
              h4 = h3(worldPivot := vadd (h3 worldPivot) (posePosition obj))
          in w\<lparr>heap := h4, line := Some (h4 startPos, h4 worldPivot)\<rparr>))"

text \<open>One rendered frame: nothing runs unless a drag is on.\<close>

definition dragFrame :: "(quat \<Rightarrow> vec3 \<Rightarrow> vec3) \<Rightarrow> drag_world \<Rightarrow> frame_input \<Rightarrow> drag_world" where
  "dragFrame Q w f =
     (case dragState w of
        None \<Rightarrow> w
      | Some (ref, pivot) \<Rightarrow> cursorFrame f (lineFrame Q f pivot w))"

text \<open>
  The \<open>pivotB\<close> that a render of \<open>CursorConstraint\<close> hands to
  \<open>usePointToPointConstraint\<close>: \<open>[pivot.x, pivot.y, pivot.z]\<close>.
\<close>

definition pivotB :: "drag_world \<Rightarrow> vec3 option" where
  "pivotB w = (case dragState w of None \<Rightarrow> None | Some (ref, pivot) \<Rightarrow> Some (heap w pivot))"

section \<open>Invariants\<close>

text \<open>
  Every pending timer is the one that \<open>timeoutRef\<close> or \<open>pWaveTimeoutRef\<close> holds, and no
  timer id is 0.
\<close>

definition timersOwned :: "app_state \<Rightarrow> bool" where
  "timersOwned s =
     (0 < nextTimerId s \<and>
      list_all (\<lambda>t. fst t \<noteq> 0 \<and>
                  (timeoutRef s = Some (fst t) \<or> pWaveTimeoutRef s = Some (fst t)))
        (timers s))"

text \<open>
  A drag of object \<open>obj\<close> is on, its pivot vector lives at address \<open>a\<close> and holds \<open>v\<close>, and
  the temporaries of the feedback line are the three addresses after \<open>a\<close>.
\<close>

definition grabbed :: "nat \<Rightarrow> nat \<Rightarrow> vec3 \<Rightarrow> drag_world \<Rightarrow> bool" where
  "grabbed obj a v w =
     (dragState w = Some (obj, a) \<and> heap w a = v \<and> lineTemps w = (a + 1, a + 2, a + 3))"

section \<open>Facts about the generator\<close>

lemmas dimension_defs =
  PILLAR_HEIGHT_def SLAB_HEIGHT_def PILLAR_WIDTH_SIMPLE_def SLAB_WIDTH_SIMPLE_def
  OFFSET_SIMPLE_def PILLAR_WIDTH_APARTMENT_def GRID_SIZE_def BANK_GRID_def
  PILLAR_WIDTH_BANK_def PILLAR_PHYSICS_WIDTH_BANK_def BEAM_HEIGHT_KINDA_BIG_def
  GAP_def WALL_THICKNESS_def WINDOW_THICKNESS_def WALL_LENGTH_APT_def


lemma length_grid: "length (grid nx nz f) = nx * nz"
  by (simp add: grid_def length_concat comp_def sum_list_triv)

lemma set_grid: "set (grid nx nz f) = {f x z | x z. x < nx \<and> z < nz}"
  unfolding grid_def by (auto, blast)

lemma filter_grid_all: "(\<And>x z. P (f x z)) \<Longrightarrow> filter P (grid nx nz f) = grid nx nz f"
  by (rule filter_True) (auto simp: set_grid)

lemma filter_grid_none: "(\<And>x z. \<not> P (f x z)) \<Longrightarrow> filter P (grid nx nz f) = []"
  by (rule filter_False) (auto simp: set_grid)

lemma upt_rooms: "[0..<4] = [0, 1, 2, 3]" "[0..<5] = [0, 1, 2, 3, 4]"
  by (simp_all add: upt_rec)

lemmas kind_defs = isPillar_def isSlab_def isWall_def isWindow_def isDebris_def

subsection \<open>Body counts of one story\<close>

lemma length_StorySimple: "length (StorySimple l y) = 5"
  by (simp add: StorySimple_def Let_def)

lemma kinds_StorySimple:
  "length (filter isPillar (StorySimple l y)) = 4"
  "length (filter isSlab (StorySimple l y)) = 1"
  "filter isWall (StorySimple l y) = []"
  "filter isWindow (StorySimple l y) = []"
  "filter isDebris (StorySimple l y) = []"
  by (simp_all add: StorySimple_def Let_def kind_defs PhysicsBox_def)

lemma length_StoryApartment:
  "length (StoryApartment l y rx rz) =
     (rx + 1) * (rz + 1) + rx * (rz + 1) + (rx + 1) * rz + rx * rz
       + (if l = 0 then 0 else rx * rz)"
  by (simp add: StoryApartment_def Let_def length_grid)

lemma pillars_StoryApartment:
  "length (filter isPillar (StoryApartment l y rx rz)) = (rx + 1) * (rz + 1)"
  by (simp add: StoryApartment_def Let_def filter_grid_all filter_grid_none isPillar_def
        PhysicsBox_def length_grid)




lemma length_StoryBank: "length (StoryBank l y) = 81"
  by (simp add: StoryBank_def Let_def length_grid)






subsection \<open>Levels and totals\<close>

lemma length_levels: "length (levels ty n) = totalLevels ty n"
  by (simp add: levels_def)

lemma nth_levels: "i < totalLevels ty n \<Longrightarrow> levels ty n ! i = story ty i"
  by (simp add: levels_def)

lemma story_simple: "story simple i = StorySimple i (getFloorY simple i)"
  by (simp add: story_def)

lemma story_bank: "story bank i = StoryBank i (getFloorY bank i)"
  by (simp add: story_def)

lemma story_apartment: "story apartment i = StoryApartment i (getFloorY apartment i) 3 3"
  by (simp add: story_def getGridDimensions_def)

lemma length_concat_const:
  "(\<And>x. x \<in> set xs \<Longrightarrow> length (f x) = c) \<Longrightarrow> length (concat (map f xs)) = c * length xs"
  by (induction xs) auto

lemma length_Building_simple: "length (Building n simple) = 5 * n"
  by (simp add: Building_def levels_def totalLevels_def story_simple length_StorySimple
        length_concat_const)

lemma length_Building_bank: "length (Building n bank) = 81 * (n + 1)"
  by (simp add: Building_def levels_def totalLevels_def story_bank length_StoryBank
        length_concat_const)

lemma length_story_apartment: "length (story apartment i) = (if i = 0 then 49 else 58)"
  by (simp add: story_apartment length_StoryApartment)

lemma length_Building_apartment: "length (Building n apartment) = 49 + 58 * n"
proof -
  have "length (concat (map (story apartment) [0..<Suc n])) = 49 + 58 * n"
  proof (induction n)
    case 0
    show ?case by (simp add: length_story_apartment)
  next
    case (Suc n)
    have "[0..<Suc (Suc n)] = [0..<Suc n] @ [Suc n]" by simp
    then show ?case using Suc
      by (simp only: map_append concat_append length_append)
         (simp add: length_story_apartment)
  qed
  then show ?thesis by (simp add: Building_def levels_def totalLevels_def)
qed

subsection \<open>Mass and material of the bodies of one story\<close>

lemma basement_StoryApartment:
  "\<forall>b \<in> set (StoryApartment 0 y rx rz).
      mass b = 50 \<and> material b = basementMaterial \<and> \<not> isDebris b"
  by (auto simp: StoryApartment_def Let_def set_grid PhysicsBox_def isDebris_def)

lemma upper_StoryApartment:
  "\<forall>b \<in> set (StoryApartment (Suc l) y rx rz).
      if isDebris b then mass b = 5 \<and> material b = debrisMaterial
      else mass b = 20 \<and> material b \<noteq> basementMaterial"
  by (auto simp: StoryApartment_def Let_def set_grid PhysicsBox_def isDebris_def)

lemma basement_StoryBank:
  "\<forall>b \<in> set (StoryBank 0 y). \<not> isDebris b \<and>
      (isPillar b \<or> isSlab b \<longrightarrow> mass b = 50 \<and> material b = basementMaterial) \<and>
      (isWindow b \<longrightarrow> mass b = 5 \<and> material b = glassMaterial)"
  by (auto simp: StoryBank_def Let_def set_grid PhysicsBox_def kind_defs)

lemma upper_StoryBank:
  "\<forall>b \<in> set (StoryBank (Suc l) y). \<not> isDebris b \<and>
      (isPillar b \<or> isSlab b \<longrightarrow> mass b = 20 \<and> material b = (if isPillar b then pillarMaterial else slabMaterial)) \<and>
      (isWindow b \<longrightarrow> mass b = 5 \<and> material b = glassMaterial)"
  by (auto simp: StoryBank_def Let_def set_grid PhysicsBox_def kind_defs)

section \<open>Claims about the structure generator\<close>

text \<open>
  C3. The body count of the generator matches the closed form of each type's grid:
  \<open>Building 4 simple\<close> has exactly 20 bodies, in 4 stories of 4 pillars and 1 slab, it
  has no extra basement level and no body with the basement material; a story of the
  apartment has exactly \<open>(roomsX + 1) * (roomsZ + 1)\<close> pillars, which is 16 on every level
  of the generated apartment with its fixed 3 by 3 grid. The totals in closed form are
  \<open>5 * n\<close> (simple), \<open>49 + 58 * n\<close> (apartment) and \<open>81 * (n + 1)\<close> (bank).
\<close>

theorem C3_body_count_closed_form:
  "length (Building 4 simple) = 20
   \<and> totalLevels simple 4 = 4
   \<and> map (\<lambda>st. (length (filter isPillar st), length (filter isSlab st), length st))
        (levels simple 4) = [(4, 1, 5), (4, 1, 5), (4, 1, 5), (4, 1, 5)]
   \<and> filter (\<lambda>b. material b = basementMaterial) (Building 4 simple) = []
   \<and> length (filter isPillar (StoryApartment level yPos roomsX roomsZ))
        = (roomsX + 1) * (roomsZ + 1)
   \<and> map (\<lambda>st. length (filter isPillar st)) (levels apartment n) = replicate (n + 1) 16
   \<and> length (Building n simple) = 5 * n
   \<and> length (Building n apartment) = 49 + 58 * n
   \<and> length (Building n bank) = 81 * (n + 1)"
proof -
  have a: "length (Building 4 simple) = 20"
    by (simp add: length_Building_simple)
  have b: "totalLevels simple 4 = 4"
    by (simp add: totalLevels_def)
  have c: "map (\<lambda>st. (length (filter isPillar st), length (filter isSlab st), length st))
        (levels simple 4) = [(4, 1, 5), (4, 1, 5), (4, 1, 5), (4, 1, 5)]"
    by (simp add: levels_def totalLevels_def upt_rooms story_simple kinds_StorySimple
          length_StorySimple)
  have d: "filter (\<lambda>b. material b = basementMaterial) (Building 4 simple) = []"
    by (simp add: Building_def levels_def totalLevels_def upt_rooms story_simple
          StorySimple_def Let_def PhysicsBox_def)
  have e: "map (\<lambda>st. length (filter isPillar st)) (levels apartment n) = replicate (n + 1) 16"
    by (simp add: levels_def totalLevels_def story_apartment pillars_StoryApartment
          comp_def map_replicate_const del: upt_Suc replicate_Suc)
  show ?thesis
    using a b c d e pillars_StoryApartment length_Building_simple
      length_Building_apartment length_Building_bank
    by blast
qed

text \<open>
  C6, as the claim states it, fails: with a story count of 0 the apartment and the bank
  still render their basement level.
\<close>

theorem C6_zero_stories_counterexample:
  "Building 0 apartment \<noteq> [] \<and> length (Building 0 apartment) = 49
   \<and> Building 0 bank \<noteq> [] \<and> length (Building 0 bank) = 81"
proof -
  have "length (Building 0 apartment) = 49" "length (Building 0 bank) = 81"
    by (simp_all add: length_Building_apartment length_Building_bank)
  then show ?thesis by auto
qed

text \<open>
  C6, amended. With a story count of 0 the simple type yields no body at all; the
  apartment and the bank yield exactly their basement story (level index 0 at height 0),
  which has 49 and 81 bodies.
\<close>

theorem C6_zero_stories:
  "Building 0 simple = []
   \<and> Building 0 apartment = StoryApartment 0 0 3 3 \<and> length (Building 0 apartment) = 49
   \<and> Building 0 bank = StoryBank 0 0 \<and> length (Building 0 bank) = 81"
  by (simp add: Building_def levels_def totalLevels_def story_simple story_apartment
        story_bank length_StoryApartment length_StoryBank)

text \<open>
  C4, as the claim states it, fails on the bank: in its basement story (level index 0 of
  the generated bank) the body at index 25 is an exterior window panel, of glass and of
  mass 5, and the body at index 26 is an interior wall of mass 20 with the ordinary wall
  material.
\<close>

theorem C4_bank_basement_counterexample:
  "26 < length (levels bank 10 ! 0)
   \<and> isWindow (levels bank 10 ! 0 ! 25)
   \<and> mass (levels bank 10 ! 0 ! 25) = 5
   \<and> material (levels bank 10 ! 0 ! 25) = glassMaterial
   \<and> isWall (levels bank 10 ! 0 ! 26)
   \<and> mass (levels bank 10 ! 0 ! 26) = 20
   \<and> material (levels bank 10 ! 0 ! 26) = bankWallMaterial"
proof -
  have l: "levels bank 10 ! 0 = StoryBank 0 0"
    by (simp add: nth_levels totalLevels_def story_bank)
  show ?thesis
    unfolding l
    by (simp add: length_StoryBank)
       (simp add: StoryBank_def Let_def grid_def upt_rooms PhysicsBox_def kind_defs)
qed

text \<open>
  C4, amended. On level index 0 of the generated apartment every body has mass 50 and
  the basement material, and none is a debris cube. On level index 0 of the generated
  bank every pillar and every floor slab has mass 50 and the basement material, every
  window panel is of glass with mass 5, and none is a debris cube. On the levels above,
  the same kinds of body have mass 20 (so the basement is 2.5 times as heavy) and not
  the basement material. Nothing is said here about the interior walls of the bank's
  basement.
\<close>

theorem C4_basement_story:
  "(\<forall>b \<in> set (levels apartment n ! 0).
       mass b = 50 \<and> material b = basementMaterial \<and> \<not> isDebris b)
   \<and> (\<forall>b \<in> set (levels bank n ! 0).
         \<not> isDebris b
         \<and> (isPillar b \<or> isSlab b \<longrightarrow> mass b = 50 \<and> material b = basementMaterial)
         \<and> (isWindow b \<longrightarrow> mass b = 5 \<and> material b = glassMaterial))
   \<and> (\<forall>b \<in> set (story apartment (Suc i)).
         if isDebris b then mass b = 5 \<and> material b = debrisMaterial
         else mass b = 20 \<and> material b \<noteq> basementMaterial)
   \<and> (\<forall>b \<in> set (story bank (Suc i)).
         isPillar b \<or> isSlab b \<longrightarrow> mass b = 20 \<and> material b \<noteq> basementMaterial)
   \<and> (50 :: real) = 2.5 * 20"
proof -
  have a: "levels apartment n ! 0 = StoryApartment 0 0 3 3"
    by (simp add: nth_levels totalLevels_def story_apartment)
  have b: "levels bank n ! 0 = StoryBank 0 0"
    by (simp add: nth_levels totalLevels_def story_bank)
  have u: "\<forall>b \<in> set (story bank (Suc i)).
         isPillar b \<or> isSlab b \<longrightarrow> mass b = 20 \<and> material b \<noteq> basementMaterial"
    using upper_StoryBank[of i "getFloorY bank (Suc i)"]
    unfolding story_bank by (auto split: if_splits)
  show ?thesis
    unfolding a b
    using basement_StoryApartment[of 0 3 3] basement_StoryBank[of 0]
      upper_StoryApartment[of i "getFloorY apartment (Suc i)" 3 3] u
    unfolding story_apartment by simp
qed

theorem C4_basement_story_witness:
  "levels apartment 12 ! 0 ! 0 \<in> set (levels apartment 12 ! 0)
   \<and> mass (levels apartment 12 ! 0 ! 0) = 50
   \<and> material (levels apartment 12 ! 0 ! 0) = basementMaterial
   \<and> levels bank 10 ! 0 ! 0 \<in> set (levels bank 10 ! 0)
   \<and> isPillar (levels bank 10 ! 0 ! 0)
   \<and> mass (levels bank 10 ! 0 ! 0) = 50
   \<and> material (levels bank 10 ! 0 ! 0) = basementMaterial
   \<and> levels bank 10 ! 0 ! 25 \<in> set (levels bank 10 ! 0)
   \<and> isWindow (levels bank 10 ! 0 ! 25)
   \<and> mass (levels bank 10 ! 0 ! 25) = 5"
proof -
  have la: "levels apartment 12 ! 0 = StoryApartment 0 0 3 3"
    by (simp add: nth_levels totalLevels_def story_apartment)
  have lb: "levels bank 10 ! 0 = StoryBank 0 0"
    by (simp add: nth_levels totalLevels_def story_bank)
  have m1: "levels apartment 12 ! 0 ! 0 \<in> set (levels apartment 12 ! 0)"
    unfolding la by (rule nth_mem) (simp add: length_StoryApartment)
  have m2: "levels bank 10 ! 0 ! 0 \<in> set (levels bank 10 ! 0)"
    unfolding lb by (rule nth_mem) (simp add: length_StoryBank)
  have m3: "levels bank 10 ! 0 ! 25 \<in> set (levels bank 10 ! 0)"
    unfolding lb by (rule nth_mem) (simp add: length_StoryBank)
  have k2: "isPillar (levels bank 10 ! 0 ! 0)" and k3: "isWindow (levels bank 10 ! 0 ! 25)"
    unfolding lb
    by (simp_all add: StoryBank_def Let_def grid_def upt_rooms PhysicsBox_def kind_defs)
  from C4_basement_story[of 12 0] m1
  have r1: "mass (levels apartment 12 ! 0 ! 0) = 50
            \<and> material (levels apartment 12 ! 0 ! 0) = basementMaterial"
    by blast
  from C4_basement_story[of 10 0] m2 k2
  have r2: "mass (levels bank 10 ! 0 ! 0) = 50
            \<and> material (levels bank 10 ! 0 ! 0) = basementMaterial"
    by blast
  from C4_basement_story[of 10 0] m3 k3
  have r3: "mass (levels bank 10 ! 0 ! 25) = 5"
    by blast
  from m1 m2 m3 k2 k3 r1 r2 r3 show ?thesis by blast
qed



text \<open>
  C10, as the claim states it, fails in its clause on the body count: the apartment's
  count is not proportional to the story count plus one. With 0 stories it has 49
  bodies, with 1 story 107, and 107 to 2 is not as 49 to 1.
\<close>

theorem C10_body_count_proportional_counterexample:
  "length (Building 0 apartment) = 49 \<and> length (Building 1 apartment) = 107
   \<and> length (Building 1 apartment) * (0 + 1) \<noteq> length (Building 0 apartment) * (1 + 1)"
  by (simp add: length_Building_apartment)

text \<open>
  C10, amended. The apartment and the bank render the story count plus one levels, the
  extra one being the basement at level index 0 and height 0; the simple type renders
  exactly the story count. The bank's body count is 81 times the story count plus one;
  the simple type's is 5 times the story count; the apartment's is 58 times the story
  count plus one, less the 9 debris cubes that its basement does not have.
\<close>

theorem C10_levels_rendered:
  "length (levels apartment n) = n + 1 \<and> length (levels bank n) = n + 1
   \<and> length (levels simple n) = n
   \<and> levels apartment n ! 0 = StoryApartment 0 0 3 3
   \<and> levels bank n ! 0 = StoryBank 0 0
   \<and> length (Building n bank) = 81 * (n + 1)
   \<and> length (Building n simple) = 5 * n
   \<and> length (Building n apartment) + 9 = 58 * (n + 1)"
  by (simp add: length_levels nth_levels totalLevels_def story_apartment story_bank
        length_Building_bank length_Building_simple length_Building_apartment)

section \<open>Facts about the excitation controller\<close>

lemmas app_defs = run_def initialWorld_def initialApp_def quakeButton_def handleEarthquake_def
  handleRebuild_def handleConfigChange_def playEarthquakeSound_def stopEarthquakeSound_def
  clearIfSet_def clearTimeout_def setTimeout_def Let_def

lemma timers_clearIfSet [simp]:
  "timers (clearIfSet r s) =
     (case r of None \<Rightarrow> timers s
      | Some i \<Rightarrow> if i \<noteq> 0 then filter (\<lambda>t. fst t \<noteq> i) (timers s) else timers s)"
  by (simp add: clearIfSet_def clearTimeout_def split: option.splits)

lemma clearIfSet_fields [simp]:
  "timeoutRef (clearIfSet r s) = timeoutRef s"
  "pWaveTimeoutRef (clearIfSet r s) = pWaveTimeoutRef s"
  "nextTimerId (clearIfSet r s) = nextTimerId s"
  "isQuaking (clearIfSet r s) = isQuaking s"
  "quakePower (clearIfSet r s) = quakePower s"
  "config (clearIfSet r s) = config s"
  "resetKey (clearIfSet r s) = resetKey s"
  "audioAvailable (clearIfSet r s) = audioAvailable s"
  by (simp_all add: clearIfSet_def clearTimeout_def split: option.splits)

lemma playEarthquakeSound_fields [simp]:
  "timers (playEarthquakeSound d p s) = timers s"
  "timeoutRef (playEarthquakeSound d p s) = timeoutRef s"
  "pWaveTimeoutRef (playEarthquakeSound d p s) = pWaveTimeoutRef s"
  "nextTimerId (playEarthquakeSound d p s) = nextTimerId s"
  "isQuaking (playEarthquakeSound d p s) = isQuaking s"
  "quakePower (playEarthquakeSound d p s) = quakePower s"
  "config (playEarthquakeSound d p s) = config s"
  "resetKey (playEarthquakeSound d p s) = resetKey s"
  by (simp_all add: playEarthquakeSound_def stopEarthquakeSound_def Let_def)

lemma timersOwned_update [simp]:
  "timersOwned (s\<lparr>config := c\<rparr>) = timersOwned s"
  "timersOwned (s\<lparr>customDuration := v\<rparr>) = timersOwned s"
  "timersOwned (s\<lparr>isPaused := b\<rparr>) = timersOwned s"
  "timersOwned (s\<lparr>isQuaking := b\<rparr>) = timersOwned s"
  "timersOwned (s\<lparr>quakePower := v\<rparr>) = timersOwned s"
  "timersOwned (s\<lparr>resetKey := k\<rparr>) = timersOwned s"
  "timersOwned (s\<lparr>audioContextRef := a\<rparr>) = timersOwned s"
  by (simp_all add: timersOwned_def)

lemma no_member_Nil: "(\<And>t. t \<in> set xs \<Longrightarrow> False) \<Longrightarrow> xs = []"
  by (cases xs) auto

text \<open>Clearing what the two refs hold leaves no timer pending.\<close>

lemma cleared_timers:
  assumes "timersOwned s"
  shows "timers (clearIfSet (pWaveTimeoutRef s) (clearIfSet (timeoutRef s) s)) = []"
proof (rule no_member_Nil)
  fix t
  assume "t \<in> set (timers (clearIfSet (pWaveTimeoutRef s) (clearIfSet (timeoutRef s) s)))"
  with assms show False
    by (cases t) (auto simp: timersOwned_def list_all_iff split: option.splits if_splits)
qed

lemma handleRebuild_timers: "timersOwned s \<Longrightarrow> timers (handleRebuild s) = []"
  using cleared_timers[of "s\<lparr>audioContextRef := None, resetKey := resetKey s + 1,
                              isQuaking := False, isPaused := False\<rparr>"]
  by (simp add: handleRebuild_def Let_def stopEarthquakeSound_def timersOwned_def)

lemma handleRebuild_fields [simp]:
  "isQuaking (handleRebuild s) = False"
  "resetKey (handleRebuild s) = resetKey s + 1"
  "nextTimerId (handleRebuild s) = nextTimerId s"
  "timeoutRef (handleRebuild s) = timeoutRef s"
  "pWaveTimeoutRef (handleRebuild s) = pWaveTimeoutRef s"
  by (simp_all add: handleRebuild_def Let_def stopEarthquakeSound_def)

lemma handleRebuild_owned: "timersOwned s \<Longrightarrow> timersOwned (handleRebuild s)"
  by (frule handleRebuild_timers) (simp add: timersOwned_def)

lemma handleEarthquake_bank:
  assumes "timersOwned s" "type (config s) = bank" "1.4 \<le> pwr"
  shows "timers (handleEarthquake d pwr r s) =
           [(nextTimerId s, pWaveDuration d r, StartSWave pwr (sWaveDuration d r)),
            (nextTimerId s + 1, d, EndQuake)]"
    "pWaveTimeoutRef (handleEarthquake d pwr r s) = Some (nextTimerId s)"
    "timeoutRef (handleEarthquake d pwr r s) = Some (nextTimerId s + 1)"
    "nextTimerId (handleEarthquake d pwr r s) = nextTimerId s + 2"
    "isQuaking (handleEarthquake d pwr r s)"
    "quakePower (handleEarthquake d pwr r s) = pWavePower"
  using assms cleared_timers[OF assms(1)]
  by (simp_all add: handleEarthquake_def Let_def setTimeout_def)

lemma handleEarthquake_single:
  assumes "timersOwned s" "\<not> (type (config s) = bank \<and> 1.4 \<le> pwr)"
  shows "timers (handleEarthquake d pwr r s) = [(nextTimerId s, d, EndQuake)]"
    "pWaveTimeoutRef (handleEarthquake d pwr r s) = pWaveTimeoutRef s"
    "timeoutRef (handleEarthquake d pwr r s) = Some (nextTimerId s)"
    "nextTimerId (handleEarthquake d pwr r s) = nextTimerId s + 1"
    "isQuaking (handleEarthquake d pwr r s)"
    "quakePower (handleEarthquake d pwr r s) = pwr"
  using assms cleared_timers[OF assms(1)]
  by (auto simp: handleEarthquake_def Let_def setTimeout_def)

lemma handleEarthquake_owned: "timersOwned s \<Longrightarrow> timersOwned (handleEarthquake d pwr r s)"
proof (cases "type (config s) = bank \<and> 1.4 \<le> pwr")
  case True
  assume o: "timersOwned s"
  then have "0 < nextTimerId s" by (simp add: timersOwned_def)
  with True o show ?thesis
    by (simp add: timersOwned_def[of "handleEarthquake d pwr r s"] handleEarthquake_bank)
next
  case False
  assume o: "timersOwned s"
  then have "0 < nextTimerId s" by (simp add: timersOwned_def)
  with False o show ?thesis
    by (simp add: timersOwned_def[of "handleEarthquake d pwr r s"] handleEarthquake_single)
qed

lemma fireTimer_owned: "timersOwned s \<Longrightarrow> timersOwned (fireTimer i s)"
proof -
  assume o: "timersOwned s"
  have c: "timersOwned (clearTimeout i s)"
    using o by (auto simp: timersOwned_def clearTimeout_def list_all_iff)
  have r: "\<And>cb s'. timersOwned s' \<Longrightarrow> timersOwned (runCallback cb s')"
    subgoal for cb s' by (cases cb) (simp_all add: timersOwned_def)
    done
  show ?thesis using o c r
    by (simp add: fireTimer_def split: option.splits prod.splits)
qed

lemma fireTimer_first:
  "timers s = (i, d, cb) # ts \<Longrightarrow>
     fireTimer i s = runCallback cb (s\<lparr>timers := filter (\<lambda>t. fst t \<noteq> i) ts\<rparr>)"
  by (simp add: fireTimer_def clearTimeout_def)

lemma handleConfigChange_owned: "timersOwned s \<Longrightarrow> timersOwned (handleConfigChange n ty s)"
proof -
  assume o: "timersOwned s"
  have "timersOwned (s\<lparr>config := \<lparr>stories = n, type = ty\<rparr>\<rparr>)"
    using o by simp
  then have "timersOwned (handleRebuild (s\<lparr>config := \<lparr>stories = n, type = ty\<rparr>\<rparr>))"
    by (rule handleRebuild_owned)
  then show ?thesis
    by (auto simp: handleConfigChange_def Let_def)
qed

subsection \<open>Invariants of the transition system\<close>

lemma app_render [simp]: "app (render w) = app w"
  by (simp add: render_def)

lemma sceneKey_render [simp]: "sceneKey (render w) = resetKey (app w)"
  by (simp add: render_def)

lemma step_owned: "timersOwned (app w) \<Longrightarrow> timersOwned (app (step w e))"
  by (cases e)
     (simp_all add: quakeButton_def handleEarthquake_owned handleRebuild_owned
        handleConfigChange_owned fireTimer_owned)

lemma foldl_step_owned: "timersOwned (app w) \<Longrightarrow> timersOwned (app (foldl step w es))"
  by (induction es arbitrary: w) (simp_all add: step_owned)

lemma run_owned: "timersOwned (app (run audio es))"
  unfolding run_def
  by (rule foldl_step_owned) (simp add: initialWorld_def initialApp_def timersOwned_def)

lemma step_sceneKey:
  "sceneKey w = resetKey (app w) \<Longrightarrow> sceneKey (step w e) = resetKey (app (step w e))"
  by (cases e) simp_all

lemma foldl_step_sceneKey:
  "sceneKey w = resetKey (app w) \<Longrightarrow>
     sceneKey (foldl step w es) = resetKey (app (foldl step w es))"
  by (induction es arbitrary: w) (simp_all add: step_sceneKey)

lemma run_sceneKey: "sceneKey (run audio es) = resetKey (app (run audio es))"
  unfolding run_def
  by (rule foldl_step_sceneKey) (simp add: initialWorld_def initialApp_def)

subsection \<open>Two concrete states\<close>

text \<open>After the 5 s quake button on the first screen; after the bank button.\<close>

lemma quaking_state:
  "app (run True [QuakeButton 5000 1 0]) =
     \<lparr> config = \<lparr>stories = 4, type = simple\<rparr>, resetKey = 0, isQuaking = True,
       quakePower = 1, isPaused = False, customDuration = 15,
       timeoutRef = Some 1, pWaveTimeoutRef = None,
       audioContextRef = Some \<lparr>soundDuration = 5000, soundVolume = 0.15\<rparr>,
       audioAvailable = True, timers = [(1, 5000, EndQuake)], nextTimerId = 2 \<rparr>"
  by (simp add: app_defs)

lemma bank_state:
  "app (run True [ConfigButton 10 bank]) =
     \<lparr> config = \<lparr>stories = 10, type = bank\<rparr>, resetKey = 1, isQuaking = False,
       quakePower = 1, isPaused = False, customDuration = 30,
       timeoutRef = None, pWaveTimeoutRef = None, audioContextRef = None,
       audioAvailable = True, timers = [], nextTimerId = 1 \<rparr>"
  by (simp add: app_defs)

lemma pWaveRatio_range:
  "0 \<le> rnd \<Longrightarrow> rnd < 1 \<Longrightarrow> 0.30 \<le> pWaveRatio rnd \<and> pWaveRatio rnd < 0.40"
  by (simp add: pWaveRatio_def)

lemma timeRef_frames:
  "timeRef (foldl (\<lambda>fs (delta, r1, r2, r3). floorFrame True pwr delta r1 r2 r3 fs) fs frames)
     = timeRef fs + 25 * sum_list (map fst frames)"
proof (induction frames arbitrary: fs)
  case Nil
  show ?case by simp
next
  case (Cons f frames)
  obtain delta r1 r2 r3 where f: "f = (delta, r1, r2, r3)"
    by (cases f) auto
  have "timeRef (floorFrame True pwr delta r1 r2 r3 fs) = timeRef fs + delta * 25"
    by (simp add: floorFrame_def Let_def)
  then show ?case
    using Cons[of "floorFrame True pwr delta r1 r2 r3 fs"] by (simp add: f algebra_simps)
qed

section \<open>Claims about the excitation controller\<close>

text \<open>
  C1. The excitation trigger is a quake button, and every quake button is disabled while
  a quake is active. In every state the application can reach in which the quake is
  active, pressing a quake button, whatever duration and power it passes and whatever
  the random draw, is a no-op: the whole application (state, scene and floor) is as
  before, and so are in particular the active flag, the power, the two timer refs and
  the pending phase-transition and end-of-quake timers.
\<close>

theorem C1_trigger_while_active_noop:
  assumes "isQuaking (app (run audio es))"
  shows "step (run audio es) (QuakeButton duration pwr rnd) = run audio es
    \<and> isQuaking (app (step (run audio es) (QuakeButton duration pwr rnd)))
    \<and> quakePower (app (step (run audio es) (QuakeButton duration pwr rnd)))
        = quakePower (app (run audio es))
    \<and> timers (app (step (run audio es) (QuakeButton duration pwr rnd)))
        = timers (app (run audio es))
    \<and> timeoutRef (app (step (run audio es) (QuakeButton duration pwr rnd)))
        = timeoutRef (app (run audio es))
    \<and> pWaveTimeoutRef (app (step (run audio es) (QuakeButton duration pwr rnd)))
        = pWaveTimeoutRef (app (run audio es))"
proof -
  let ?w = "run audio es"
  have b: "quakeButton duration pwr rnd (app ?w) = app ?w"
    using assms by (simp add: quakeButton_def)
  have r: "render ?w = ?w"
    using run_sceneKey[of audio es] by (simp add: render_def)
  have e: "step ?w (QuakeButton duration pwr rnd) = ?w"
    by (simp add: b r)
  show ?thesis
    unfolding e using assms by simp
qed

theorem C1_trigger_while_active_noop_witness:
  "isQuaking (app (run True [QuakeButton 5000 1 0]))
   \<and> timers (app (run True [QuakeButton 5000 1 0])) = [(1, 5000, EndQuake)]
   \<and> step (run True [QuakeButton 5000 1 0]) (QuakeButton 10000 1 0)
        = run True [QuakeButton 5000 1 0]
   \<and> timers (app (step (run True [QuakeButton 5000 1 0]) (QuakeButton 10000 1 0)))
        = [(1, 5000, EndQuake)]
   \<and> quakePower (app (step (run True [QuakeButton 5000 1 0]) (QuakeButton 10000 1 0))) = 1"
proof -
  have q: "isQuaking (app (run True [QuakeButton 5000 1 0]))"
    and t: "timers (app (run True [QuakeButton 5000 1 0])) = [(1, 5000, EndQuake)]"
    and p: "quakePower (app (run True [QuakeButton 5000 1 0])) = 1"
    by (simp_all add: quaking_state)
  from C1_trigger_while_active_noop[OF q, of 10000 1 0] q t p
  show ?thesis by simp
qed

text \<open>
  C2. In any state \<open>s\<close> the application can reach, with the bank as building type, a
  trigger with power at least 1.4 and random draw \<open>rnd\<close> in \<open>[0, 1)\<close> splits the duration:
  the ratio is \<open>0.30 + rnd * 0.10\<close>, made from the draw of this trigger, and so lies in
  \<open>[0.30, 0.40)\<close>, the P-wave lasts the duration times the ratio, and
  the P-wave and S-wave durations add up to the duration. The quake is active at power
  0.5, and exactly two timers are pending: the phase transition after the P-wave
  duration and the deactivation after the whole duration. When the first fires, the
  power is the requested one and the quake still active; when the second fires, the
  quake is inactive and no timer is left.
\<close>

theorem C2_two_phase_split:
  assumes "s = app (run audio es)" and "type (config s) = bank" and "1.4 \<le> pwr"
    and "0 \<le> rnd" and "rnd < 1"
  shows "pWaveRatio rnd = 0.30 + rnd * 0.10
    \<and> 0.30 \<le> pWaveRatio rnd \<and> pWaveRatio rnd < 0.40
    \<and> pWaveDuration duration rnd = duration * pWaveRatio rnd
    \<and> pWaveDuration duration rnd = duration * (0.30 + rnd * 0.10)
    \<and> sWaveDuration duration rnd = duration - duration * (0.30 + rnd * 0.10)
    \<and> pWaveDuration duration rnd + sWaveDuration duration rnd = duration
    \<and> isQuaking (handleEarthquake duration pwr rnd s)
    \<and> quakePower (handleEarthquake duration pwr rnd s) = 0.5
    \<and> timers (handleEarthquake duration pwr rnd s) =
         [(nextTimerId s, pWaveDuration duration rnd,
             StartSWave pwr (sWaveDuration duration rnd)),
          (nextTimerId s + 1, duration, EndQuake)]
    \<and> isQuaking (fireTimer (nextTimerId s) (handleEarthquake duration pwr rnd s))
    \<and> quakePower (fireTimer (nextTimerId s) (handleEarthquake duration pwr rnd s)) = pwr
    \<and> timers (fireTimer (nextTimerId s) (handleEarthquake duration pwr rnd s)) =
         [(nextTimerId s + 1, duration, EndQuake)]
    \<and> \<not> isQuaking (fireTimer (nextTimerId s + 1)
           (fireTimer (nextTimerId s) (handleEarthquake duration pwr rnd s)))
    \<and> timers (fireTimer (nextTimerId s + 1)
           (fireTimer (nextTimerId s) (handleEarthquake duration pwr rnd s))) = []"
proof -
  let ?h = "handleEarthquake duration pwr rnd s"
  let ?i = "nextTimerId s"
  have o: "timersOwned s" using assms(1) run_owned by simp
  note hb = handleEarthquake_bank[OF o assms(2) assms(3), of duration rnd]
  have r: "0.30 \<le> pWaveRatio rnd \<and> pWaveRatio rnd < 0.40"
    using assms(4,5) by (rule pWaveRatio_range)
  have d: "pWaveDuration duration rnd = duration * pWaveRatio rnd"
    by (simp add: pWaveDuration_def)
  have sm: "pWaveDuration duration rnd + sWaveDuration duration rnd = duration"
    by (simp add: sWaveDuration_def)
  have q0: "isQuaking ?h" and p0: "quakePower ?h = 0.5"
    using hb by (simp_all add: pWavePower_def)
  have f1: "fireTimer ?i ?h = runCallback (StartSWave pwr (sWaveDuration duration rnd))
              (?h\<lparr>timers := [(?i + 1, duration, EndQuake)]\<rparr>)"
    using fireTimer_first[OF hb(1)] by simp
  have q1: "isQuaking (fireTimer ?i ?h)" and p1: "quakePower (fireTimer ?i ?h) = pwr"
    and t1: "timers (fireTimer ?i ?h) = [(?i + 1, duration, EndQuake)]"
    using q0 by (simp_all add: f1)
  have f2: "fireTimer (?i + 1) (fireTimer ?i ?h)
              = runCallback EndQuake ((fireTimer ?i ?h)\<lparr>timers := []\<rparr>)"
    using fireTimer_first[OF t1] by simp
  have q2: "\<not> isQuaking (fireTimer (?i + 1) (fireTimer ?i ?h))"
    and t2: "timers (fireTimer (?i + 1) (fireTimer ?i ?h)) = []"
    using f2 by simp_all
  have e: "pWaveRatio rnd = 0.30 + rnd * 0.10"
    by (simp add: pWaveRatio_def)
  have d': "pWaveDuration duration rnd = duration * (0.30 + rnd * 0.10)"
    by (simp add: pWaveDuration_def pWaveRatio_def)
  have s': "sWaveDuration duration rnd = duration - duration * (0.30 + rnd * 0.10)"
    by (simp add: sWaveDuration_def pWaveDuration_def pWaveRatio_def)
  from e r d d' s' sm q0 p0 hb(1) q1 p1 t1 q2 t2 show ?thesis by blast
qed

theorem C2_two_phase_split_witness:
  "type (config (app (run True [ConfigButton 10 bank]))) = bank \<and> (1.4::real) \<le> 1.4
   \<and> (0::real) \<le> 1/2 \<and> (1/2::real) < 1 \<and> (0::real) \<le> 0 \<and> (0::real) < 1
   \<and> pWaveRatio (1/2) = 0.35 \<and> pWaveRatio 0 = 0.30
   \<and> pWaveDuration 30000 (1/2) = 10500 \<and> sWaveDuration 30000 (1/2) = 19500
   \<and> pWaveDuration 30000 0 = 9000 \<and> sWaveDuration 30000 0 = 21000
   \<and> timers (handleEarthquake 30000 1.4 (1/2) (app (run True [ConfigButton 10 bank]))) =
        [(1, 10500, StartSWave 1.4 19500), (2, 30000, EndQuake)]
   \<and> timers (handleEarthquake 30000 1.4 0 (app (run True [ConfigButton 10 bank]))) =
        [(1, 9000, StartSWave 1.4 21000), (2, 30000, EndQuake)]
   \<and> quakePower (handleEarthquake 30000 1.4 (1/2) (app (run True [ConfigButton 10 bank])))
        = 0.5
   \<and> quakePower (fireTimer 1
         (handleEarthquake 30000 1.4 (1/2) (app (run True [ConfigButton 10 bank])))) = 1.4"
proof -
  let ?s = "app (run True [ConfigButton 10 bank])"
  have b: "type (config ?s) = bank" and n: "nextTimerId ?s = 1"
    by (simp_all add: bank_state)
  note h = C2_two_phase_split[of ?s True "[ConfigButton 10 bank]" "1.4" "1/2" 30000]
  note z = C2_two_phase_split[of ?s True "[ConfigButton 10 bank]" "1.4" 0 30000]
  have h': "pWaveRatio (1/2) = 0.35" "pWaveDuration 30000 (1/2) = 10500"
    "sWaveDuration 30000 (1/2) = 19500"
    "timers (handleEarthquake 30000 1.4 (1/2) ?s)
       = [(1, pWaveDuration 30000 (1/2), StartSWave 1.4 (sWaveDuration 30000 (1/2))),
          (2, 30000, EndQuake)]"
    "quakePower (handleEarthquake 30000 1.4 (1/2) ?s) = 0.5"
    "quakePower (fireTimer 1 (handleEarthquake 30000 1.4 (1/2) ?s)) = 1.4"
    using h b n by simp_all
  have z': "pWaveRatio 0 = 0.30" "pWaveDuration 30000 0 = 9000"
    "sWaveDuration 30000 0 = 21000"
    "timers (handleEarthquake 30000 1.4 0 ?s)
       = [(1, pWaveDuration 30000 0, StartSWave 1.4 (sWaveDuration 30000 0)),
          (2, 30000, EndQuake)]"
    using z b n by simp_all
  from b h' z' show ?thesis by simp
qed

text \<open>
  C5. Whatever has happened before (any sequence of button presses, triggers, timers
  firing and frames, so with no quake, in the P-wave or in the S-wave phase), after the
  rebuild button the quake is inactive, no timer is pending, and the floor is at its rest
  pose \<open>(0, -1.1, 0)\<close>, where the next frame keeps it.
\<close>

theorem C5_rebuild_resets:
  "\<not> isQuaking (app (step (run audio es) RebuildButton))
   \<and> timers (app (step (run audio es) RebuildButton)) = []
   \<and> floorPosition (floor (step (run audio es) RebuildButton)) = (0, - 1.1, 0)
   \<and> floorPosition (floor (step (step (run audio es) RebuildButton) (Frame delta r1 r2 r3)))
        = (0, - 1.1, 0)"
proof -
  let ?w = "run audio es"
  have t: "timers (app (step ?w RebuildButton)) = []"
    using run_owned[of audio es] by (simp add: handleRebuild_timers)
  have q: "\<not> isQuaking (app (step ?w RebuildButton))"
    by simp
  have f: "floor (step ?w RebuildButton) = floorMount"
    using run_sceneKey[of audio es] by (simp add: render_def)
  have p: "floorPosition (floor (step ?w RebuildButton)) = (0, - 1.1, 0)"
    by (simp only: f) (simp add: floorMount_def)
  have g: "floorPosition (floor (step (step ?w RebuildButton) (Frame delta r1 r2 r3)))
             = (0, - 1.1, 0)"
    using q by (simp add: floorFrame_def)
  from t q p g show ?thesis by blast
qed

text \<open>
  C7, as the claim states it, fails in its last clause: the vertical noise scales
  linearly with the power, not quadratically. Take the powers 0.5 (the P-wave) and 1
  (the standard quake). With \<open>timeRef = 0\<close>, \<open>delta = 0\<close> and random draws 0 the sines
  vanish and the vertical offset from \<open>-1.1\<close> is the noise alone: at power 1 it is
  twice, not four times, what it is at power 0.5.
\<close>

theorem C7_vertical_noise_counterexample:
  "fst (snd (floorPosition (floorFrame True 0.5 0 0 0 0 floorMount))) - (- 1.1) = - 0.075
   \<and> fst (snd (floorPosition (floorFrame True 1 0 0 0 0 floorMount))) - (- 1.1) = - 0.15
   \<and> fst (snd (floorPosition (floorFrame True 1 0 0 0 0 floorMount))) - (- 1.1)
     = 2 * (fst (snd (floorPosition (floorFrame True 0.5 0 0 0 0 floorMount))) - (- 1.1))
   \<and> fst (snd (floorPosition (floorFrame True 1 0 0 0 0 floorMount))) - (- 1.1)
     \<noteq> 2 ^ 2 * (fst (snd (floorPosition (floorFrame True 0.5 0 0 0 0 floorMount)))
                  - (- 1.1))
   \<and> noiseFactorY 1 = 2 * noiseFactorY 0.5 \<and> noiseFactorY 1 \<noteq> 2 ^ 2 * noiseFactorY 0.5"
  by (simp add: floorFrame_def floorMount_def Let_def intensityY_def noiseFactorY_def)

text \<open>
  C7, amended. While a quake is active, a frame advances \<open>t\<close> by the frame time times 25
  (so over any run of frames \<open>t\<close> grows by 25 times the sum of the frame times) and sets
  the floor to \<open>x = A sin t + noise\<close>, \<open>y = -1.1 + Av sin (1.5 t) + noise\<close>,
  \<open>z = A cos (0.9 t) + noise\<close>, where each noise term is a random draw less 0.5, times a
  magnitude. The amplitudes are \<open>A = 1.0 * power\<close> and \<open>Av = 0.4 * power\<close>, the
  horizontal noise magnitude is \<open>0.6 * power\<close> and the vertical one \<open>0.3 * power\<close>: all
  four scale linearly with the power, the vertical noise too.
\<close>

theorem C7_floor_motion_law:
  "floorFrame True pwr delta r1 r2 r3 fs =
     \<lparr> floorPosition =
         (1.0 * pwr * sin (timeRef fs + delta * 25) + (r1 - 0.5) * (0.6 * pwr),
          - 1.1 + 0.4 * pwr * sin (1.5 * (timeRef fs + delta * 25))
             + (r3 - 0.5) * (0.3 * pwr),
          1.0 * pwr * cos (0.9 * (timeRef fs + delta * 25)) + (r2 - 0.5) * (0.6 * pwr)),
       timeRef = timeRef fs + delta * 25 \<rparr>
   \<and> floorFrame True pwr delta r1 r2 r3 fs =
     \<lparr> floorPosition =
         (intensityX pwr * sin (timeRef fs + delta * 25) + (r1 - 0.5) * noiseFactor pwr,
          - 1.1 + intensityY pwr * sin (1.5 * (timeRef fs + delta * 25))
             + (r3 - 0.5) * noiseFactorY pwr,
          intensityX pwr * cos (0.9 * (timeRef fs + delta * 25))
             + (r2 - 0.5) * noiseFactor pwr),
       timeRef = timeRef fs + delta * 25 \<rparr>
   \<and> intensityX pwr = 1.0 * pwr \<and> intensityY pwr = 0.4 * pwr
   \<and> noiseFactor pwr = 0.6 * pwr \<and> noiseFactorY pwr = 0.3 * pwr
   \<and> timeRef (foldl (\<lambda>fs (delta, r1, r2, r3). floorFrame True pwr delta r1 r2 r3 fs)
                fs frames)
        = timeRef fs + 25 * sum_list (map fst frames)
   \<and> intensityX (k * pwr) = k * intensityX pwr
   \<and> intensityY (k * pwr) = k * intensityY pwr
   \<and> noiseFactor (k * pwr) = k * noiseFactor pwr
   \<and> noiseFactorY (k * pwr) = k * noiseFactorY pwr"
proof -
  have a: "floorFrame True pwr delta r1 r2 r3 fs =
     \<lparr> floorPosition =
         (1.0 * pwr * sin (timeRef fs + delta * 25) + (r1 - 0.5) * (0.6 * pwr),
          - 1.1 + 0.4 * pwr * sin (1.5 * (timeRef fs + delta * 25))
             + (r3 - 0.5) * (0.3 * pwr),
          1.0 * pwr * cos (0.9 * (timeRef fs + delta * 25)) + (r2 - 0.5) * (0.6 * pwr)),
       timeRef = timeRef fs + delta * 25 \<rparr>"
    by (simp add: floorFrame_def Let_def intensityX_def intensityY_def noiseFactor_def
          noiseFactorY_def mult.commute)
  have c: "intensityX pwr = 1.0 * pwr" "intensityY pwr = 0.4 * pwr"
    "noiseFactor pwr = 0.6 * pwr" "noiseFactorY pwr = 0.3 * pwr"
    by (simp_all add: intensityX_def intensityY_def noiseFactor_def noiseFactorY_def)
  have b: "floorFrame True pwr delta r1 r2 r3 fs =
     \<lparr> floorPosition =
         (intensityX pwr * sin (timeRef fs + delta * 25) + (r1 - 0.5) * noiseFactor pwr,
          - 1.1 + intensityY pwr * sin (1.5 * (timeRef fs + delta * 25))
             + (r3 - 0.5) * noiseFactorY pwr,
          intensityX pwr * cos (0.9 * (timeRef fs + delta * 25))
             + (r2 - 0.5) * noiseFactor pwr),
       timeRef = timeRef fs + delta * 25 \<rparr>"
    unfolding a c ..
  have h: "intensityX (k * pwr) = k * intensityX pwr"
    "intensityY (k * pwr) = k * intensityY pwr"
    "noiseFactor (k * pwr) = k * noiseFactor pwr"
    "noiseFactorY (k * pwr) = k * noiseFactorY pwr"
    by (simp_all add: intensityX_def intensityY_def noiseFactor_def noiseFactorY_def)
  from a b c h timeRef_frames[of pwr fs frames] show ?thesis by blast
qed

section \<open>Facts about the drag controller\<close>

lemma onPointerDown_grabbed:
  "grabbed obj (nextAddr w) (W p point) (onPointerDown W obj p point d w)"
  by (simp add: grabbed_def onPointerDown_def mountCursorConstraint_def newVector3_def
        startDrag_def Let_def)

text \<open>A frame writes to the temporaries of the line only: the pivot keeps its value.\<close>

lemma dragFrame_grabbed: "grabbed obj a v w \<Longrightarrow> grabbed obj a v (dragFrame Q w f)"
  by (auto simp: grabbed_def dragFrame_def cursorFrame_def lineFrame_def Let_def
        split: option.splits)

lemma frames_grabbed: "grabbed obj a v w \<Longrightarrow> grabbed obj a v (foldl (dragFrame Q) w fs)"
  by (induction fs arbitrary: w) (simp_all add: dragFrame_grabbed)

lemma grabbed_line:
  "grabbed obj a v w \<Longrightarrow>
     line (dragFrame Q w (f\<lparr>target := Some tp\<rparr>))
       = Some (cursorMesh f, vadd (Q (poseQuaternion tp) v) (posePosition tp))"
  by (auto simp: grabbed_def dragFrame_def cursorFrame_def lineFrame_def Let_def)

section \<open>Claim about the drag controller\<close>

text \<open>
  C8. A drag starts with a pointer-down on an object \<open>obj\<close> with pose \<open>p\<close>, hit at the world
  point \<open>point\<close>; the pivot is that point in the object's local frame, \<open>W p point\<close>. After
  any number of frames, whatever the poses of the object in them, the drag state still
  holds the same pivot vector with the same value; a render hands that value to the
  point-to-point constraint as \<open>pivotB\<close>; and a frame in which the object has pose \<open>tp\<close>
  draws the line from the cursor to that same pivot, rotated and moved by \<open>tp\<close>. The
  pointer-up ends the drag.
\<close>

theorem C8_pivot_fixed_during_drag:
  "dragState (foldl (dragFrame Q) (onPointerDown W obj p point d w) fs)
      = Some (obj, nextAddr w)
   \<and> heap (foldl (dragFrame Q) (onPointerDown W obj p point d w) fs) (nextAddr w)
      = W p point
   \<and> pivotB (foldl (dragFrame Q) (onPointerDown W obj p point d w) fs) = Some (W p point)
   \<and> line (dragFrame Q (foldl (dragFrame Q) (onPointerDown W obj p point d w) fs)
             (f\<lparr>target := Some tp\<rparr>))
        = Some (cursorMesh f, vadd (Q (poseQuaternion tp) (W p point)) (posePosition tp))
   \<and> dragState (onPointerUp (foldl (dragFrame Q) (onPointerDown W obj p point d w) fs))
        = None"
proof -
  let ?w = "foldl (dragFrame Q) (onPointerDown W obj p point d w) fs"
  have g: "grabbed obj (nextAddr w) (W p point) ?w"
    by (rule frames_grabbed) (rule onPointerDown_grabbed)
  then have a: "dragState ?w = Some (obj, nextAddr w)"
    and b: "heap ?w (nextAddr w) = W p point"
    by (simp_all add: grabbed_def)
  from a b have c: "pivotB ?w = Some (W p point)"
    by (simp add: pivotB_def)
  have e: "dragState (onPointerUp ?w) = None"
    by (simp add: onPointerUp_def endDrag_def)
  from a b c grabbed_line[OF g] e show ?thesis by blast
qed

end
